theory Spec2Isabelle
  imports
    Complex_Main
    "HOL-Library.Char_ord"
    "HOL-Library.List_Lexorder"
    "HOL-Library.Multiset"
begin

section \<open>The public-spaces dashboard (app.py)\<close>

text \<open>
  The program is one Python script: it loads a survey table, cleans it, and computes a handful
  of pandas aggregations that feed charts.  The embedding below covers the data-processing
  part: the derivation of the \<open>Area\<close> column, the area filter, the grouped sums, the
  aggregation with its scores, the top-N selection, the detail lookup and the pie-chart grid.
  Rendering (streamlit, plotly) is kept only as far as it decides which values are computed and
  which messages are issued.

  Conventions.
  \<^item> A cleaned table is a list of rows, in the order of the data frame; a row is a record with
    one field per column.  A \<open>Town\<close> cell may be missing (\<open>None\<close>, the \<open>NaN\<close> that
    \<open>read_csv\<close> puts for an empty cell).  An \<open>Area\<close> cell is always a string, since
    \<open>load_data\<close> fails on a reference that is not one; the indicator cells are taken to be
    present integers.
  \<^item> Integer columns are \<open>int\<close>; the only float column, \<open>normalized_score\<close>, is a value of
    \<open>pyfloat\<close>, with exact rationals for the finite values and the three special values that
    a division by zero produces in pandas.
  \<^item> The dtype of a column matters in one place, the ranking, which refuses object columns;
    it is carried where it is needed.
  \<^item> A Python exception is a value \<open>Inl e\<close> of a sum type.
  \<^item> Strings are byte strings; the two characters the code looks for are ASCII, and the order
    of byte strings is the order Python uses on the corresponding texts.
\<close>

datatype py_error = KeyError | ValueError | TypeError | IndexError

subsection \<open>Deriving the area from the reference URI\<close>

text \<open>
  \<^verbatim>\<open>
  def clean_ref_area(url):
      return url.split('/')[-1].replace('_', ' ')
  \<close>
  \<open>str.split\<close> with a separator returns the pieces between the separators, the empty
  ones included, so the result is never empty; \<open>[-1]\<close> reads the last piece and raises
  on an empty list; \<open>str.replace\<close> with one-character arguments rewrites every occurrence.
\<close>

fun str_split :: "char \<Rightarrow> string \<Rightarrow> string list" where
  "str_split sep [] = [ [] ]"
| "str_split sep (c # cs) =
     (if c = sep then [] # str_split sep cs
      else (c # hd (str_split sep cs)) # tl (str_split sep cs))"

definition index_last :: "'a list \<Rightarrow> py_error + 'a" where
  "index_last xs = (if xs = [] then Inl IndexError else Inr (last xs))"

definition str_replace :: "char \<Rightarrow> char \<Rightarrow> string \<Rightarrow> string" where
  "str_replace old new s = map (\<lambda>c. if c = old then new else c) s"

definition clean_ref_area :: "string \<Rightarrow> py_error + string" where
  "clean_ref_area url =
     (case index_last (str_split (CHR ''/'') url) of
        Inl e \<Rightarrow> Inl e
      | Inr piece \<Rightarrow> Inr (str_replace (CHR ''_'') (CHR '' '') piece))"

subsection \<open>Tables\<close>

text \<open>
  The columns of the cleaned table.  \<open>Area\<close> and the indicator columns are shared by the
  cleaned table and the aggregated table, so they form the common part of both records.
\<close>

record area_indicators =
  Area :: string
  parks_exist :: int
  parks_bad :: int
  lighting_bad :: int
  lighting_acceptable :: int
  lighting_good :: int
  parks_good :: int
  parks_acceptable :: int

record row = area_indicators +
  Town :: "string option"

type_synonym table = "row list"

text \<open>
  \<open>read_csv\<close> infers the dtype of a column from its cells: integer cells give \<open>int64\<close>, and a
  column without any cell, in a file that has only its header line, is \<open>object\<close>.  So the
  indicator columns of the table that \<open>load_data\<close> returns are \<open>int64\<close> unless the table is
  empty.
\<close>

datatype dtype = Int64 | Object

definition indicator_dtype :: "table \<Rightarrow> dtype" where
  "indicator_dtype df = (if df = [] then Object else Int64)"

text \<open>
  The column names of the cleaned table.  \<open>load_data\<close> puts \<open>Area\<close> and the parks-existence
  column first and leaves the others in the order of the source file; only membership is used
  below.
\<close>

definition columns :: "string list" where
  "columns = [''Area'', ''parks_exist'', ''Town'', ''parks_bad'', ''lighting_bad'',
              ''lighting_acceptable'', ''lighting_good'', ''parks_good'', ''parks_acceptable'']"

subsection \<open>Selecting the rows of the chosen areas\<close>

text \<open>
  \<^verbatim>\<open>filtered_df = df[df['Area'].isin(selected_areas)]\<close>
\<close>

definition isin :: "string \<Rightarrow> string list \<Rightarrow> bool" where
  "isin a selected = (a \<in> set selected)"

definition filtered_df :: "table \<Rightarrow> string list \<Rightarrow> table" where
  "filtered_df df selected_areas = filter (\<lambda>r. isin (Area r) selected_areas) df"

subsection \<open>Grouping by area\<close>

text \<open>
  \<open>groupby('Area')\<close> makes one group per distinct area, the groups in ascending order of the
  area name, the rows of a group in the order of the table.  \<open>sum\<close> adds a column over a
  group; \<open>nunique\<close> counts the distinct values of a column in a group, missing cells left
  out; \<open>unique\<close> lists the distinct values in the order of their first occurrence, a missing
  cell being one of them.
\<close>

definition group_keys :: "table \<Rightarrow> string list" where
  "group_keys data = sort (remdups (map Area data))"

definition get_group :: "table \<Rightarrow> string \<Rightarrow> table" where
  "get_group data k = filter (\<lambda>r. Area r = k) data"

definition col_sum :: "(row \<Rightarrow> int) \<Rightarrow> table \<Rightarrow> int" where
  "col_sum c g = sum_list (map c g)"

definition nunique :: "(row \<Rightarrow> string option) \<Rightarrow> table \<Rightarrow> int" where
  "nunique c g = int (length (remdups (filter (\<lambda>v. v \<noteq> None) (map c g))))"

fun unique :: "'a list \<Rightarrow> 'a list" where
  "unique [] = []"
| "unique (x # xs) = x # unique (filter (\<lambda>y. y \<noteq> x) xs)"

text \<open>
  \<^verbatim>\<open>
  lighting_data = filtered_df.groupby('Area')[ ['lighting_bad', 'lighting_acceptable',
                                                'lighting_good'] ].sum().reset_index()
  parks_data = filtered_df.groupby('Area')[ ['parks_bad', 'parks_acceptable',
                                             'parks_good'] ].sum().reset_index()
  \<close>
  A row of the result is the area followed by the sums of the selected columns.
\<close>

definition groupby_sum :: "table \<Rightarrow> (row \<Rightarrow> int) list \<Rightarrow> (string \<times> int list) list" where
  "groupby_sum data cols =
     map (\<lambda>k. (k, map (\<lambda>c. col_sum c (get_group data k)) cols)) (group_keys data)"

definition lighting_data :: "table \<Rightarrow> (string \<times> int list) list" where
  "lighting_data filtered = groupby_sum filtered [lighting_bad, lighting_acceptable, lighting_good]"

definition parks_data :: "table \<Rightarrow> (string \<times> int list) list" where
  "parks_data filtered = groupby_sum filtered [parks_bad, parks_acceptable, parks_good]"

subsection \<open>Float results\<close>

text \<open>
  Dividing two integer columns gives a float column.  pandas does not raise on a zero divisor:
  the cell becomes \<open>inf\<close>, \<open>-inf\<close> or \<open>NaN\<close>.  Finite results are kept exact.
\<close>

datatype pyfloat = NaN | NegInf | Finite rat | PosInf

definition truediv :: "int \<Rightarrow> int \<Rightarrow> pyfloat" where
  "truediv a b =
     (if b \<noteq> 0 then Finite (of_int a / of_int b)
      else if 0 < a then PosInf
      else if a < 0 then NegInf
      else NaN)"

text \<open>
  The order used for ranking: \<open>-inf\<close> below the finite values, \<open>inf\<close> above them.  \<open>NaN\<close> is
  put below everything, which is where a ranking by largest values leaves the rows without a
  score: after all the others.
\<close>

fun float_le :: "pyfloat \<Rightarrow> pyfloat \<Rightarrow> bool" where
  "float_le NaN y = True"
| "float_le NegInf y = (y \<noteq> NaN)"
| "float_le (Finite a) y = (case y of Finite b \<Rightarrow> a \<le> b | PosInf \<Rightarrow> True | _ \<Rightarrow> False)"
| "float_le PosInf y = (y = PosInf)"

instantiation pyfloat :: linorder
begin

definition less_eq_pyfloat :: "pyfloat \<Rightarrow> pyfloat \<Rightarrow> bool" where
  "less_eq_pyfloat x y = float_le x y"

definition less_pyfloat :: "pyfloat \<Rightarrow> pyfloat \<Rightarrow> bool" where
  "less_pyfloat x y = (float_le x y \<and> \<not> float_le y x)"

instance
proof
  fix x y z :: pyfloat
  show "(x < y) = (x \<le> y \<and> \<not> y \<le> x)"
    by (simp add: less_eq_pyfloat_def less_pyfloat_def)
  show "x \<le> x"
    by (cases x) (simp_all add: less_eq_pyfloat_def)
  show "x \<le> y \<Longrightarrow> y \<le> z \<Longrightarrow> x \<le> z"
    by (cases x; cases y; cases z) (simp_all add: less_eq_pyfloat_def)
  show "x \<le> y \<Longrightarrow> y \<le> x \<Longrightarrow> x = y"
    by (cases x; cases y) (simp_all add: less_eq_pyfloat_def)
  show "x \<le> y \<or> y \<le> x"
    by (cases x; cases y) (auto simp: less_eq_pyfloat_def)
qed

end

subsection \<open>Aggregation\<close>

text \<open>
  \<^verbatim>\<open>
  def aggregate_data(data, group_column):
      agg_data = data.groupby(group_column).agg({
          'lighting_good': 'sum', 'parks_good': 'sum', 'lighting_acceptable': 'sum',
          'parks_acceptable': 'sum', 'parks_exist': 'sum', 'parks_bad': 'sum',
          'lighting_bad': 'sum', 'Town': 'nunique'}).reset_index()
      agg_data.rename(columns={'Town': 'town_count'}, inplace=True)
      agg_data['total_score'] = (agg_data['lighting_good'] + agg_data['parks_good'] +
          agg_data['lighting_acceptable'] + agg_data['parks_acceptable'])
      agg_data['normalized_score'] = agg_data['total_score'] / agg_data['town_count']
      return agg_data
  \<close>
\<close>

record agg_row = area_indicators +
  town_count :: int
  total_score :: int
  normalized_score :: pyfloat

text \<open>The row of one group, with the two derived columns.\<close>

definition agg_group :: "table \<Rightarrow> string \<Rightarrow> agg_row" where
  "agg_group data k =
     (let g = get_group data k;
          lg = col_sum lighting_good g;
          pg = col_sum parks_good g;
          la = col_sum lighting_acceptable g;
          pa = col_sum parks_acceptable g;
          tc = nunique Town g;
          ts = lg + pg + la + pa
      in \<lparr>Area = k,
          parks_exist = col_sum parks_exist g,
          parks_bad = col_sum parks_bad g,
          lighting_bad = col_sum lighting_bad g,
          lighting_acceptable = la,
          lighting_good = lg,
          parks_good = pg,
          parks_acceptable = pa,
          town_count = tc,
          total_score = ts,
          normalized_score = truediv ts tc\<rparr>)"

text \<open>
  \<open>groupby\<close> raises \<open>KeyError\<close> for a name that is not a column.  Every column of the cleaned
  table other than \<open>Area\<close> is also a key of the aggregation dictionary, so grouping by one of
  them yields a frame that has the name both as its index and as a column, and
  \<open>reset_index\<close> raises \<open>ValueError\<close> (cannot insert, already exists).  The script only ever
  groups by \<open>Area\<close>: \<open>view_level\<close> is the constant \<open>'Areas'\<close>.
\<close>

definition aggregate_data :: "table \<Rightarrow> string \<Rightarrow> py_error + agg_row list" where
  "aggregate_data data group_column =
     (if group_column \<notin> set columns then Inl KeyError
      else if group_column \<noteq> ''Area'' then Inl ValueError
      else Inr (map (agg_group data) (group_keys data)))"

subsection \<open>Top-N selection\<close>

text \<open>
  \<^verbatim>\<open>top_entities = grouped_df.nlargest(num_top_entities, score_column)\<close>

  \<open>DataFrame.nlargest(n, column)\<close> with the default \<open>keep='first'\<close> returns the first \<open>n\<close> rows
  in descending order of the column, rows of equal value in the order of the frame; it returns
  no row for \<open>n \<le> 0\<close>, raises \<open>KeyError\<close> for an unknown column and \<open>TypeError\<close> for a
  column whose dtype is \<open>object\<close>, whatever it holds.  Integer columns are compared as
  numbers.

  An aggregated frame is its rows together with the dtype of the columns that were summed: a
  sum has the dtype of the column it adds up, \<open>total_score\<close> that of the sums, and the quotient
  \<open>normalized_score\<close> is \<open>float64\<close> for \<open>int64\<close> sums and \<open>object\<close> for \<open>object\<close> sums.  The
  \<open>Area\<close> column is \<open>object\<close>; \<open>town_count\<close>, a count, is \<open>int64\<close>.
\<close>

record agg_frame =
  sums_dtype :: dtype
  agg_rows :: "agg_row list"

definition numeric :: "dtype \<Rightarrow> (agg_row \<Rightarrow> pyfloat) \<Rightarrow> py_error + (agg_row \<Rightarrow> pyfloat)" where
  "numeric dt f = (if dt = Object then Inl TypeError else Inr f)"

definition agg_column :: "dtype \<Rightarrow> string \<Rightarrow> py_error + (agg_row \<Rightarrow> pyfloat)" where
  "agg_column dt name =
     (if name = ''Area'' then Inl TypeError
      else if name = ''lighting_good'' then numeric dt (\<lambda>r. Finite (of_int (lighting_good r)))
      else if name = ''parks_good'' then numeric dt (\<lambda>r. Finite (of_int (parks_good r)))
      else if name = ''lighting_acceptable''
        then numeric dt (\<lambda>r. Finite (of_int (lighting_acceptable r)))
      else if name = ''parks_acceptable'' then numeric dt (\<lambda>r. Finite (of_int (parks_acceptable r)))
      else if name = ''parks_exist'' then numeric dt (\<lambda>r. Finite (of_int (parks_exist r)))
      else if name = ''parks_bad'' then numeric dt (\<lambda>r. Finite (of_int (parks_bad r)))
      else if name = ''lighting_bad'' then numeric dt (\<lambda>r. Finite (of_int (lighting_bad r)))
      else if name = ''town_count'' then Inr (\<lambda>r. Finite (of_int (town_count r)))
      else if name = ''total_score'' then numeric dt (\<lambda>r. Finite (of_int (total_score r)))
      else if name = ''normalized_score'' then numeric dt normalized_score
      else Inl KeyError)"

text \<open>A stable sort in descending order of a key: insertion from the right.\<close>

fun insert_desc :: "('a \<Rightarrow> 'k::linorder) \<Rightarrow> 'a \<Rightarrow> 'a list \<Rightarrow> 'a list" where
  "insert_desc f x [] = [x]"
| "insert_desc f x (y # ys) = (if f y \<le> f x then x # y # ys else y # insert_desc f x ys)"

fun sort_desc :: "('a \<Rightarrow> 'k::linorder) \<Rightarrow> 'a list \<Rightarrow> 'a list" where
  "sort_desc f [] = []"
| "sort_desc f (x # xs) = insert_desc f x (sort_desc f xs)"

definition nlargest :: "int \<Rightarrow> string \<Rightarrow> agg_frame \<Rightarrow> py_error + agg_row list" where
  "nlargest n column frame =
     (case agg_column (sums_dtype frame) column of
        Inl e \<Rightarrow> Inl e
      | Inr f \<Rightarrow> Inr (take (nat n) (sort_desc f (agg_rows frame))))"

subsection \<open>Detail view of the selected entity\<close>

text \<open>
  \<^verbatim>\<open>
  if selected_entity:
      entity_data = top_entities[top_entities[group_column] == selected_entity].iloc[0]
      ...
      if view_level == 'Areas':
          related_towns = df[df['Area'] == selected_entity]['Town'].unique()
  \<close>
  \<open>iloc[0]\<close> raises \<open>IndexError\<close> on a frame without rows.  The guard is false when nothing is
  selected (\<open>None\<close>) and for the empty string.
\<close>

definition iloc0 :: "'a list \<Rightarrow> py_error + 'a" where
  "iloc0 xs = (case xs of [] \<Rightarrow> Inl IndexError | x # _ \<Rightarrow> Inr x)"

definition entity_data :: "agg_row list \<Rightarrow> string \<Rightarrow> py_error + agg_row" where
  "entity_data top_entities selected_entity =
     iloc0 (filter (\<lambda>r. Area r = selected_entity) top_entities)"

definition related_towns :: "table \<Rightarrow> string \<Rightarrow> string option list" where
  "related_towns df selected_entity =
     unique (map Town (filter (\<lambda>r. Area r = selected_entity) df))"

text \<open>
  \<^verbatim>\<open>
          st.write(f"Towns in {selected_entity}:")
          st.write(", ".join(related_towns))
  \<close>
  \<open>str.join\<close> raises \<open>TypeError\<close> when an item is not a string, as a missing town is.
\<close>

fun str_join :: "string \<Rightarrow> string list \<Rightarrow> string" where
  "str_join sep [] = []"
| "str_join sep [x] = x"
| "str_join sep (x # y # ys) = x @ sep @ str_join sep (y # ys)"

definition join :: "string \<Rightarrow> string option list \<Rightarrow> py_error + string" where
  "join sep items =
     (if None \<in> set items then Inl TypeError else Inr (str_join sep (map the items)))"

definition detail_view ::
  "table \<Rightarrow> agg_row list \<Rightarrow> string option
     \<Rightarrow> py_error + (agg_row \<times> string option list) option" where
  "detail_view df top_entities selected_entity =
     (case selected_entity of
        None \<Rightarrow> Inr None
      | Some name \<Rightarrow>
          if name = [] then Inr None
          else (case entity_data top_entities name of
                  Inl e \<Rightarrow> Inl e
                | Inr d \<Rightarrow> Inr (Some (d, related_towns df name))))"

subsection \<open>The grid of pie charts\<close>

text \<open>
  \<^verbatim>\<open>
  def create_binary_pie_charts(data, variables, selected_areas):
      filtered_data = data[data['Area'].isin(selected_areas)]
      for i in range(0, len(variables), 2):
          fig = make_subplots(rows=1, cols=2, ...)
          for j, var in enumerate(variables[i:i+2]):
              if var in filtered_data.columns:
                  pie_data = filtered_data.groupby('Area')[var].sum().reset_index()
                  pie_chart = px.pie(pie_data, names='Area', values=var, ...)
                  fig.add_trace(pie_chart.data[0], row=1, col=j+1)
                  fig.add_annotation(...)
          fig.update_layout(height=400, width=800)
          st.plotly_chart(fig, use_container_width=True)
  \<close>
  A column of the table holds integers or strings; the sum of a string column over a group is
  the concatenation of the cells that are present.  For \<open>var = 'Area'\<close> the grouped sum is a series named like its index, and
  \<open>reset_index\<close> raises \<open>ValueError\<close>.  The charting library is taken to turn a frame into
  exactly one trace, so that \<open>pie_chart.data[0]\<close> is that trace; a pie is recorded by the
  column it shows, its slot in the figure and its data.
\<close>

datatype cell = IntCell int | StrCell string

datatype column = IntColumn "row \<Rightarrow> int" | StrColumn "row \<Rightarrow> string option"

definition get_column :: "string \<Rightarrow> column option" where
  "get_column name =
     (if name = ''Area'' then Some (StrColumn (\<lambda>r. Some (Area r)))
      else if name = ''Town'' then Some (StrColumn Town)
      else if name = ''parks_exist'' then Some (IntColumn parks_exist)
      else if name = ''parks_bad'' then Some (IntColumn parks_bad)
      else if name = ''lighting_bad'' then Some (IntColumn lighting_bad)
      else if name = ''lighting_acceptable'' then Some (IntColumn lighting_acceptable)
      else if name = ''lighting_good'' then Some (IntColumn lighting_good)
      else if name = ''parks_good'' then Some (IntColumn parks_good)
      else if name = ''parks_acceptable'' then Some (IntColumn parks_acceptable)
      else None)"

fun group_sum :: "column \<Rightarrow> table \<Rightarrow> cell" where
  "group_sum (IntColumn c) g = IntCell (sum_list (map c g))"
| "group_sum (StrColumn c) g = StrCell (concat (map the (filter (\<lambda>v. v \<noteq> None) (map c g))))"

definition pie_data :: "table \<Rightarrow> string \<Rightarrow> py_error + (string \<times> cell) list" where
  "pie_data filtered_data var =
     (case get_column var of
        None \<Rightarrow> Inl KeyError
      | Some c \<Rightarrow>
          if var = ''Area'' then Inl ValueError
          else Inr (map (\<lambda>k. (k, group_sum c (get_group filtered_data k)))
                        (group_keys filtered_data)))"

record pie =
  pie_var :: string
  pie_col :: nat
  pie_slices :: "(string \<times> cell) list"

text \<open>The traces of one figure: the inner loop, \<open>j\<close> counting the variables of the pair.\<close>

fun subplot_traces :: "table \<Rightarrow> nat \<Rightarrow> string list \<Rightarrow> py_error + pie list" where
  "subplot_traces filtered_data j [] = Inr []"
| "subplot_traces filtered_data j (var # vars) =
     (if var \<in> set columns then
        (case pie_data filtered_data var of
           Inl e \<Rightarrow> Inl e
         | Inr pd \<Rightarrow>
             (case subplot_traces filtered_data (Suc j) vars of
                Inl e \<Rightarrow> Inl e
              | Inr ps \<Rightarrow> Inr (\<lparr>pie_var = var, pie_col = j + 1, pie_slices = pd\<rparr> # ps)))
      else subplot_traces filtered_data (Suc j) vars)"

text \<open>The pairs \<open>variables[i:i+2]\<close> for \<open>i = 0, 2, 4, ...\<close>.\<close>

fun pairs :: "'a list \<Rightarrow> 'a list list" where
  "pairs [] = []"
| "pairs [x] = [ [x] ]"
| "pairs (x # y # zs) = [x, y] # pairs zs"

text \<open>The outer loop: one figure per pair, stopping at the first exception.\<close>

fun figures :: "table \<Rightarrow> string list list \<Rightarrow> py_error + pie list list" where
  "figures filtered_data [] = Inr []"
| "figures filtered_data (vars # rest) =
     (case subplot_traces filtered_data 0 vars of
        Inl e \<Rightarrow> Inl e
      | Inr fig \<Rightarrow>
          (case figures filtered_data rest of
             Inl e \<Rightarrow> Inl e
           | Inr figs \<Rightarrow> Inr (fig # figs)))"

definition create_binary_pie_charts ::
  "table \<Rightarrow> string list \<Rightarrow> string list \<Rightarrow> py_error + pie list list" where
  "create_binary_pie_charts data variables selected_areas =
     figures (filter (\<lambda>r. isin (Area r) selected_areas) data) (pairs variables)"

subsection \<open>The script\<close>

text \<open>
  One run of the script, from the cleaned table and the state of the four widgets to what the
  page shows.  The sidebar selection feeds \<open>filtered_df\<close> and through it the two stacked bar
  charts; the ranking is computed from \<open>df\<close>; the name \<open>selected_areas\<close> is bound a second
  time by the comparison widget, whose value feeds the pie charts and the final warning.
\<close>

record widgets =
  sidebar_areas :: "string list"
  num_top_entities :: int
  selected_entity :: "string option"
  comparison_areas :: "string list"

record page =
  shown_lighting :: "(string \<times> int list) list"
  shown_parks :: "(string \<times> int list) list"
  shown_top :: "agg_row list"
  shown_detail :: "(agg_row \<times> string option list) option"
  shown_towns :: "string option"
  shown_pies :: "pie list list"
  shown_warnings :: "string list"

definition binary_vars :: "string list" where
  "binary_vars = [''parks_exist'', ''parks_bad'', ''lighting_bad'', ''lighting_acceptable'',
                  ''lighting_good'', ''parks_good'', ''parks_acceptable'']"

text \<open>
  \<^verbatim>\<open>
  grouped_df = aggregate_data(df, 'Area')
  score_column = 'normalized_score'
  top_entities = grouped_df.nlargest(num_top_entities, score_column)
  \<close>
\<close>

text \<open>
  \<open>df\<close> is the table \<open>load_data\<close> returned, so the sums of \<open>grouped_df\<close> have the dtype
  \<open>read_csv\<close> gave its indicator columns.
\<close>

definition top_entities :: "table \<Rightarrow> int \<Rightarrow> py_error + agg_row list" where
  "top_entities df num =
     (case aggregate_data df ''Area'' of
        Inl e \<Rightarrow> Inl e
      | Inr grouped_df \<Rightarrow>
          nlargest num ''normalized_score''
            \<lparr>sums_dtype = indicator_dtype df, agg_rows = grouped_df\<rparr>)"

text \<open>The line of towns under the detail view, when there is one.\<close>

definition towns_line ::
  "(agg_row \<times> string option list) option \<Rightarrow> py_error + string option" where
  "towns_line d =
     (case d of
        None \<Rightarrow> Inr None
      | Some (entity, towns) \<Rightarrow>
          (case join '', '' towns of Inl e \<Rightarrow> Inl e | Inr line \<Rightarrow> Inr (Some line)))"

definition app :: "table \<Rightarrow> widgets \<Rightarrow> py_error + page" where
  "app df w =
     (let filtered = filtered_df df (sidebar_areas w) in
      case top_entities df (num_top_entities w) of
        Inl e \<Rightarrow> Inl e
      | Inr top_rows \<Rightarrow>
      (case detail_view df top_rows (selected_entity w) of
        Inl e \<Rightarrow> Inl e
      | Inr d \<Rightarrow>
      (case towns_line d of
        Inl e \<Rightarrow> Inl e
      | Inr line \<Rightarrow>
      (if comparison_areas w \<noteq> [] then
         (case create_binary_pie_charts df binary_vars (comparison_areas w) of
            Inl e \<Rightarrow> Inl e
          | Inr figs \<Rightarrow>
              Inr \<lparr>shown_lighting = lighting_data filtered, shown_parks = parks_data filtered,
                   shown_top = top_rows, shown_detail = d, shown_towns = line,
                   shown_pies = figs, shown_warnings = []\<rparr>)
       else
         Inr \<lparr>shown_lighting = lighting_data filtered, shown_parks = parks_data filtered,
              shown_top = top_rows, shown_detail = d, shown_towns = line, shown_pies = [],
              shown_warnings = [''Please select at least one area for comparison.'']\<rparr>))))"

text \<open>
  The select box offers the areas of the ranking: its value is one of them, or \<open>None\<close> when
  there is none to offer.
\<close>

definition selectbox_value :: "string list \<Rightarrow> string option \<Rightarrow> bool" where
  "selectbox_value options v =
     (case v of None \<Rightarrow> options = [] | Some name \<Rightarrow> name \<in> set options)"

subsection \<open>Lemmas on the area derivation\<close>

lemma str_split_not_Nil: "str_split sep s \<noteq> []"
  by (induction s) auto

lemma str_split_no_sep: "sep \<notin> set s \<Longrightarrow> str_split sep s = [s]"
  by (induction s) auto

lemma str_split_append:
  assumes "sep \<notin> set s"
  shows "\<exists>ps. str_split sep (p @ sep # s) = ps @ [s] \<and> ps \<noteq> []"
proof (induction p)
  case Nil
  have "str_split sep ([] @ sep # s) = [ [] ] @ [s]"
    using assms by (simp add: str_split_no_sep)
  then show ?case by blast
next
  case (Cons c p)
  then obtain ps where ps: "str_split sep (p @ sep # s) = ps @ [s]" "ps \<noteq> []"
    by blast
  show ?case
  proof (cases "c = sep")
    case True
    with ps have "str_split sep ((c # p) @ sep # s) = ([] # ps) @ [s]" by simp
    then show ?thesis by blast
  next
    case False
    with ps have "str_split sep ((c # p) @ sep # s) = ((c # hd ps) # tl ps) @ [s]" by simp
    then show ?thesis by blast
  qed
qed

lemma last_str_split_append:
  "sep \<notin> set s \<Longrightarrow> last (str_split sep (p @ sep # s)) = s"
  using str_split_append [of sep s p] by auto

lemma clean_ref_area_no_slash:
  "CHR ''/'' \<notin> set s \<Longrightarrow> clean_ref_area s = Inr (str_replace (CHR ''_'') (CHR '' '') s)"
  by (simp add: clean_ref_area_def index_last_def str_split_no_sep)

lemma clean_ref_area_after_slash:
  "CHR ''/'' \<notin> set s \<Longrightarrow>
   clean_ref_area (p @ CHR ''/'' # s) = Inr (str_replace (CHR ''_'') (CHR '' '') s)"
  by (simp add: clean_ref_area_def index_last_def str_split_not_Nil last_str_split_append)

text \<open>
  Claim C6.  The area is a function of the reference string alone: for a string with a
  \<open>/\<close> it is the part after the last \<open>/\<close>, every underscore replaced by a space.  In
  particular every string that ends in \<open>/Beirut_District\<close> gives \<open>Beirut District\<close>.
\<close>

theorem clean_ref_area_last_segment:
  "(CHR ''/'' \<notin> set s \<longrightarrow>
      clean_ref_area (p @ CHR ''/'' # s) = Inr (map (\<lambda>c. if c = CHR ''_'' then CHR '' '' else c) s))
   \<and> clean_ref_area (p @ ''/Beirut_District'') = Inr ''Beirut District''"
proof
  show "CHR ''/'' \<notin> set s \<longrightarrow>
      clean_ref_area (p @ CHR ''/'' # s) = Inr (map (\<lambda>c. if c = CHR ''_'' then CHR '' '' else c) s)"
    using clean_ref_area_after_slash [of s p] by (simp add: str_replace_def)
  have "CHR ''/'' \<notin> set ''Beirut_District''" by simp
  from clean_ref_area_after_slash [OF this, of p]
  show "clean_ref_area (p @ ''/Beirut_District'') = Inr ''Beirut District''"
    by (simp add: str_replace_def)
qed

theorem clean_ref_area_last_segment_witness:
  "CHR ''/'' \<notin> set ''Mount_Lebanon''
   \<and> clean_ref_area (''http://dbpedia.org/resource'' @ CHR ''/'' # ''Mount_Lebanon'') = Inr ''Mount Lebanon''
   \<and> clean_ref_area (''http://dbpedia.org/resource'' @ ''/Beirut_District'') = Inr ''Beirut District''"
  using clean_ref_area_last_segment [of "''Mount_Lebanon''" "''http://dbpedia.org/resource''"]
  by simp

text \<open>
  Claim C8, as stated, at the empty string: it contains no \<open>/\<close>, and the derived area is
  the empty string.
\<close>

theorem clean_ref_area_empty_input: "CHR ''/'' \<notin> set [] \<and> clean_ref_area [] = Inr []"
  by (simp add: clean_ref_area_def index_last_def str_replace_def)

text \<open>
  Claim C8, amended.  For a string without \<open>/\<close> the derivation does not fail and returns
  the whole string with every underscore replaced by a space; the result is empty only when the
  string itself is empty.
\<close>

theorem clean_ref_area_plain_string:
  "CHR ''/'' \<notin> set s \<Longrightarrow>
   clean_ref_area s = Inr (map (\<lambda>c. if c = CHR ''_'' then CHR '' '' else c) s)
   \<and> (s \<noteq> [] \<longrightarrow> clean_ref_area s \<noteq> Inr [])"
  using clean_ref_area_no_slash [of s] by (simp add: str_replace_def)

theorem clean_ref_area_plain_string_witness:
  "CHR ''/'' \<notin> set ''Zahle_District'' \<and> ''Zahle_District'' \<noteq> []
   \<and> clean_ref_area ''Zahle_District'' = Inr ''Zahle District''
   \<and> clean_ref_area ''Zahle_District'' \<noteq> Inr []"
  using clean_ref_area_plain_string [of "''Zahle_District''"] by simp

subsection \<open>Lemmas on the aggregation\<close>

lemma set_group_keys: "set (group_keys data) = Area ` set data"
  by (simp add: group_keys_def)

lemma distinct_group_keys: "distinct (group_keys data)"
  by (simp add: group_keys_def)

lemma aggregate_data_Area: "aggregate_data data ''Area'' = Inr (map (agg_group data) (group_keys data))"
  by (simp add: aggregate_data_def columns_def)

lemma get_group_not_Nil: "k \<in> set (group_keys data) \<Longrightarrow> get_group data k \<noteq> []"
  by (auto simp: set_group_keys get_group_def filter_empty_conv)

lemma nunique_nonneg: "0 \<le> nunique c g"
  by (simp add: nunique_def)

lemma nunique_pos:
  assumes "x \<in> set g" and "c x \<noteq> None"
  shows "1 \<le> nunique c g"
proof -
  from assms have "c x \<in> set (remdups (filter (\<lambda>v. v \<noteq> None) (map c g)))" by simp
  then have "remdups (filter (\<lambda>v. v \<noteq> None) (map c g)) \<noteq> []" by (metis empty_iff empty_set)
  then have "0 < length (remdups (filter (\<lambda>v. v \<noteq> None) (map c g)))"
    by (rule length_greater_0_conv [THEN iffD2])
  then show ?thesis unfolding nunique_def by linarith
qed

lemma nunique_all_missing:
  assumes "\<forall>x \<in> set g. c x = None"
  shows "nunique c g = 0"
proof -
  from assms have "filter (\<lambda>v. v \<noteq> None) (map c g) = []"
    by (simp add: filter_empty_conv)
  then show ?thesis by (simp add: nunique_def)
qed

lemma agg_group_fields:
  "town_count (agg_group data k) = nunique Town (get_group data k)"
  "total_score (agg_group data k) =
     col_sum lighting_good (get_group data k) + col_sum parks_good (get_group data k)
     + col_sum lighting_acceptable (get_group data k) + col_sum parks_acceptable (get_group data k)"
  "normalized_score (agg_group data k) =
     truediv (total_score (agg_group data k)) (town_count (agg_group data k))"
  "Area (agg_group data k) = k"
  "lighting_good (agg_group data k) = col_sum lighting_good (get_group data k)"
  by (simp_all add: agg_group_def Let_def)

lemmas agg_eval = aggregate_data_def columns_def group_keys_def agg_group_def get_group_def
  col_sum_def nunique_def truediv_def Let_def

text \<open>
  Claim C2, as stated, on a table whose only row has no town: the group of its area has town
  count 0, and the division by it gives \<open>inf\<close>, without an error.
\<close>

theorem town_count_zero_without_towns:
  "aggregate_data
     [\<lparr>Area = ''X'', parks_exist = 1, parks_bad = 0, lighting_bad = 0,
       lighting_acceptable = 0, lighting_good = 1, parks_good = 1, parks_acceptable = 0,
       Town = None\<rparr>] ''Area''
   = Inr [\<lparr>Area = ''X'', parks_exist = 1, parks_bad = 0, lighting_bad = 0,
           lighting_acceptable = 0, lighting_good = 1, parks_good = 1, parks_acceptable = 0,
           town_count = 0, total_score = 2, normalized_score = PosInf\<rparr>]"
  by (simp add: agg_eval)

text \<open>
  Claim C2, amended.  Grouping by area always returns a table, and in each of its rows the
  normalized score is the quotient of the total score by the town count, the count of the
  distinct towns present in the group.  For every group that has a row with a town, the town
  count is at least one and the quotient is the finite number \<open>total_score / town_count\<close>: the
  division is not a division by zero.
\<close>

theorem normalized_score_defined:
  "\<exists>agg. aggregate_data data ''Area'' = Inr agg
     \<and> (\<forall>r \<in> set agg.
           normalized_score r = truediv (total_score r) (town_count r)
           \<and> ((\<exists>x \<in> set data. Area x = Area r \<and> Town x \<noteq> None) \<longrightarrow>
                 1 \<le> town_count r
                 \<and> normalized_score r
                     = Finite (of_int (total_score r) / of_int (town_count r))))"
proof -
  have "normalized_score r = truediv (total_score r) (town_count r)
      \<and> ((\<exists>x \<in> set data. Area x = Area r \<and> Town x \<noteq> None) \<longrightarrow>
            1 \<le> town_count r
            \<and> normalized_score r = Finite (of_int (total_score r) / of_int (town_count r)))"
    if "r \<in> set (map (agg_group data) (group_keys data))" for r
  proof -
    from that obtain k where r: "r = agg_group data k" by auto
    have q: "normalized_score r = truediv (total_score r) (town_count r)"
      using r by (simp add: agg_group_fields)
    have "1 \<le> town_count r
            \<and> normalized_score r = Finite (of_int (total_score r) / of_int (town_count r))"
      if "\<exists>x \<in> set data. Area x = Area r \<and> Town x \<noteq> None"
    proof -
      from that r obtain x where "x \<in> set (get_group data k)" "Town x \<noteq> None"
        by (auto simp: agg_group_fields get_group_def)
      then have "1 \<le> nunique Town (get_group data k)" by (rule nunique_pos)
      then have "1 \<le> town_count r" using r by (simp add: agg_group_fields)
      with q show ?thesis by (simp add: truediv_def)
    qed
    with q show ?thesis by blast
  qed
  then show ?thesis unfolding aggregate_data_Area by blast
qed

theorem normalized_score_defined_witness:
  "aggregate_data
     [\<lparr>Area = ''X'', parks_exist = 1, parks_bad = 0, lighting_bad = 0,
       lighting_acceptable = 0, lighting_good = 1, parks_good = 1, parks_acceptable = 0,
       Town = Some ''A1''\<rparr>,
      \<lparr>Area = ''X'', parks_exist = 0, parks_bad = 1, lighting_bad = 0,
       lighting_acceptable = 1, lighting_good = 0, parks_good = 0, parks_acceptable = 0,
       Town = Some ''A2''\<rparr>] ''Area''
   = Inr [\<lparr>Area = ''X'', parks_exist = 1, parks_bad = 1, lighting_bad = 0,
           lighting_acceptable = 1, lighting_good = 1, parks_good = 1, parks_acceptable = 0,
           town_count = 2, total_score = 3, normalized_score = Finite (3 / 2)\<rparr>]
   \<and> Town \<lparr>Area = ''X'', parks_exist = 1, parks_bad = 0, lighting_bad = 0,
       lighting_acceptable = 0, lighting_good = 1, parks_good = 1, parks_acceptable = 0,
       Town = Some ''A1''\<rparr> \<noteq> None
   \<and> (1::int) \<le> 2 \<and> Finite (3 / 2) = Finite (of_int 3 / of_int 2)"
proof -
  let ?x = "\<lparr>Area = ''X'', parks_exist = 1, parks_bad = 0, lighting_bad = 0,
       lighting_acceptable = 0, lighting_good = 1, parks_good = 1, parks_acceptable = 0,
       Town = Some ''A1''\<rparr>"
  let ?data = "[?x,
      \<lparr>Area = ''X'', parks_exist = 0, parks_bad = 1, lighting_bad = 0,
       lighting_acceptable = 1, lighting_good = 0, parks_good = 0, parks_acceptable = 0,
       Town = Some ''A2''\<rparr>]"
  let ?r = "\<lparr>Area = ''X'', parks_exist = 1, parks_bad = 1, lighting_bad = 0,
           lighting_acceptable = 1, lighting_good = 1, parks_good = 1, parks_acceptable = 0,
           town_count = 2, total_score = 3, normalized_score = Finite (3 / 2)\<rparr>"
  have h: "aggregate_data ?data ''Area'' = Inr [?r]"
    by (simp add: agg_eval)
  from normalized_score_defined [of ?data]
  have "\<exists>agg. (Inr [?r] :: py_error + agg_row list) = Inr agg
     \<and> (\<forall>r \<in> set agg.
           normalized_score r = truediv (total_score r) (town_count r)
           \<and> ((\<exists>x \<in> set ?data. Area x = Area r \<and> Town x \<noteq> None) \<longrightarrow>
                 1 \<le> town_count r
                 \<and> normalized_score r
                     = Finite (of_int (total_score r) / of_int (town_count r))))"
    unfolding h .
  then have "(\<exists>x \<in> set ?data. Area x = Area ?r \<and> Town x \<noteq> None) \<longrightarrow>
                 1 \<le> town_count ?r
                 \<and> normalized_score ?r
                     = Finite (of_int (total_score ?r) / of_int (town_count ?r))"
    by (simp only: sum.inject) simp
  with h show ?thesis by simp
qed

text \<open>
  Claim C4.  The two rows of the scenario, whatever their remaining columns hold, aggregate to
  one row for area \<open>X\<close> with total score 4, town count 2 and normalized score 2.
\<close>

theorem end_to_end_scenario:
  "aggregate_data
     [\<lparr>Area = ''X'', parks_exist = e1, parks_bad = b1, lighting_bad = l1,
       lighting_acceptable = 0, lighting_good = 1, parks_good = 1, parks_acceptable = 0,
       Town = Some ''A1''\<rparr>,
      \<lparr>Area = ''X'', parks_exist = e2, parks_bad = b2, lighting_bad = l2,
       lighting_acceptable = 1, lighting_good = 0, parks_good = 0, parks_acceptable = 1,
       Town = Some ''A2''\<rparr>] ''Area''
   = Inr [\<lparr>Area = ''X'', parks_exist = e1 + e2, parks_bad = b1 + b2, lighting_bad = l1 + l2,
           lighting_acceptable = 1, lighting_good = 1, parks_good = 1, parks_acceptable = 1,
           town_count = 2, total_score = 4, normalized_score = Finite 2\<rparr>]"
  by (simp add: agg_eval)

lemma sum_list_indicator:
  "distinct ks \<Longrightarrow> sum_list (map (\<lambda>k. if a = k then (c::int) else 0) ks) = (if a \<in> set ks then c else 0)"
  by (induction ks) auto

lemma sum_groups:
  "distinct ks \<Longrightarrow>
   sum_list (map (\<lambda>k. sum_list (map f (filter (\<lambda>r. key r = k) data))) ks)
     = (sum_list (map f (filter (\<lambda>r. key r \<in> set ks) data)) :: int)"
proof (induction data)
  case Nil
  then show ?case by simp
next
  case (Cons x xs)
  have "sum_list (map (\<lambda>k. sum_list (map f (filter (\<lambda>r. key r = k) (x # xs)))) ks)
      = sum_list (map (\<lambda>k. (if key x = k then f x else 0)
                            + sum_list (map f (filter (\<lambda>r. key r = k) xs))) ks)"
    by (rule arg_cong [where f = sum_list]) auto
  also have "\<dots> = sum_list (map (\<lambda>k. if key x = k then f x else 0) ks)
                 + sum_list (map (\<lambda>k. sum_list (map f (filter (\<lambda>r. key r = k) xs))) ks)"
    by (simp add: sum_list_addf)
  also have "\<dots> = (if key x \<in> set ks then f x else 0)
                 + sum_list (map f (filter (\<lambda>r. key r \<in> set ks) xs))"
    using Cons by (simp add: sum_list_indicator)
  finally show ?case by simp
qed

lemma sum_over_groups:
  "sum_list (map (\<lambda>k. col_sum f (get_group data k)) (group_keys data)) = sum_list (map f data)"
proof -
  have "filter (\<lambda>r. Area r \<in> set (group_keys data)) data = data"
    by (simp add: set_group_keys)
  with sum_groups [OF distinct_group_keys, of f Area data data]
  show ?thesis by (simp add: col_sum_def get_group_def)
qed

text \<open>
  For the grouping by area the aggregation returns a table, and the sum of \<open>lighting_good\<close>
  over its rows equals the sum over the input rows: no row is dropped or counted twice.
\<close>

lemma area_grouping_preserves_lighting_good:
  "\<exists>agg. aggregate_data data ''Area'' = Inr agg
     \<and> sum_list (map lighting_good agg) = sum_list (map lighting_good data)"
proof -
  have "sum_list (map lighting_good (map (agg_group data) (group_keys data)))
      = sum_list (map (\<lambda>k. col_sum lighting_good (get_group data k)) (group_keys data))"
    by (simp add: comp_def agg_group_fields)
  then show ?thesis by (simp add: aggregate_data_Area sum_over_groups)
qed

text \<open>
  Claim C5.  The claim is about every grouping column, and the script has a branch that groups
  by town.  On that grouping the aggregation does not return a table at all: the column
  \<open>Town\<close> is both the group key and a key of the aggregation dictionary, and \<open>reset_index\<close>
  raises \<open>ValueError\<close>.  Evaluated here on a table of one row.
\<close>

theorem aggregate_by_town_raises:
  "aggregate_data
     [\<lparr>Area = ''X'', parks_exist = 1, parks_bad = 0, lighting_bad = 0,
       lighting_acceptable = 0, lighting_good = 1, parks_good = 1, parks_acceptable = 0,
       Town = Some ''A1''\<rparr>] ''Town'' = Inl ValueError"
  by (simp add: aggregate_data_def columns_def)

subsection \<open>Lemmas on the top-N selection\<close>

lemma mset_insert_desc: "mset (insert_desc f x xs) = add_mset x (mset xs)"
  by (induction xs) auto

lemma mset_sort_desc: "mset (sort_desc f xs) = mset xs"
  by (induction xs) (auto simp: mset_insert_desc)

lemma set_sort_desc: "set (sort_desc f xs) = set xs"
  by (metis mset_sort_desc set_mset_mset)

lemma length_sort_desc: "length (sort_desc f xs) = length xs"
  by (metis mset_sort_desc size_mset)

lemma set_insert_desc: "set (insert_desc f x xs) = insert x (set xs)"
  by (induction xs) auto

lemma sorted_insert_desc:
  "sorted_wrt (\<lambda>a b. f b \<le> f a) xs \<Longrightarrow> sorted_wrt (\<lambda>a b. f b \<le> f a) (insert_desc f x xs)"
  by (induction xs) (auto simp: set_insert_desc)

lemma sorted_sort_desc: "sorted_wrt (\<lambda>a b. f b \<le> f a) (sort_desc f xs)"
  by (induction xs) (auto simp: sorted_insert_desc)

lemma filter_insert_desc_neq:
  "f x \<noteq> v \<Longrightarrow> filter (\<lambda>y. f y = v) (insert_desc f x xs) = filter (\<lambda>y. f y = v) xs"
  by (induction xs) auto

lemma filter_insert_desc_eq:
  "sorted_wrt (\<lambda>a b. f b \<le> f a) xs \<Longrightarrow>
   filter (\<lambda>y. f y = f x) (insert_desc f x xs) = x # filter (\<lambda>y. f y = f x) xs"
proof (induction xs)
  case Nil
  then show ?case by simp
next
  case (Cons y ys)
  show ?case
  proof (cases "f y \<le> f x")
    case True
    then show ?thesis by simp
  next
    case False
    then have "f y \<noteq> f x" by auto
    with False Cons show ?thesis by simp
  qed
qed

lemma sort_desc_stable: "filter (\<lambda>y. f y = v) (sort_desc f xs) = filter (\<lambda>y. f y = v) xs"
proof (induction xs)
  case Nil
  then show ?case by simp
next
  case (Cons x xs)
  show ?case
  proof (cases "f x = v")
    case True
    with Cons filter_insert_desc_eq [of f "sort_desc f xs" x, OF sorted_sort_desc]
    show ?thesis by auto
  next
    case False
    with Cons show ?thesis by (simp add: filter_insert_desc_neq)
  qed
qed

lemma filter_take_prefix: "filter P (take n xs) = take (length (filter P (take n xs))) (filter P xs)"
proof -
  have "filter P xs = filter P (take n xs) @ filter P (drop n xs)"
    by (metis append_take_drop_id filter_append)
  then show ?thesis by simp
qed

lemma sorted_take_drop:
  assumes "sorted_wrt R xs" and "a \<in> set (take n xs)" and "b \<in> set (drop n xs)"
  shows "R a b"
proof -
  have "sorted_wrt R (take n xs @ drop n xs)" using assms(1) by simp
  then show ?thesis using assms(2,3) unfolding sorted_wrt_append by blast
qed

lemma nlargest_Inr:
  "agg_column (sums_dtype frame) score_column = Inr f \<Longrightarrow>
   nlargest n score_column frame = Inr (take (nat n) (sort_desc f (agg_rows frame)))"
  by (simp add: nlargest_def)

lemmas column_eval = agg_column_def numeric_def

text \<open>The score columns of a table aggregated from a cleaned table that has rows are numeric.\<close>

lemma score_columns_numeric:
  assumes "df \<noteq> []"
  shows "agg_column (indicator_dtype df) ''normalized_score'' = Inr normalized_score"
    and "agg_column (indicator_dtype df) ''total_score''
           = Inr (\<lambda>r. Finite (of_int (total_score r)))"
  using assms by (simp_all add: indicator_dtype_def column_eval)

text \<open>
  Claim C3, as stated, on the aggregated table of a cleaned table without rows: the table has
  no rows and its sums are \<open>object\<close> columns, and the selection by \<open>normalized_score\<close> raises
  \<open>TypeError\<close> instead of returning the (empty) selection.
\<close>

theorem nlargest_object_column_raises:
  "aggregate_data [] ''Area'' = Inr []
   \<and> indicator_dtype [] = Object
   \<and> nlargest 10 ''normalized_score'' \<lparr>sums_dtype = Object, agg_rows = []\<rparr>
       = Inl TypeError"
  by (simp add: aggregate_data_def columns_def group_keys_def indicator_dtype_def nlargest_def
      column_eval)

text \<open>
  Claim C3, amended.  For an aggregated table whose score column is numeric, as it is in every
  table aggregated from a cleaned table that has rows, the top-N selection returns without
  error the first \<open>n\<close> rows of the table in descending order of the score (all rows when there
  are fewer): the result is sorted, no row left out has a larger score than a row kept, and
  for every score value the rows kept that have it are an initial part of the table's rows
  that have it, in the order of the table.  It is monotonic: the result for \<open>n\<close> is the initial
  part of the result for \<open>n + 1\<close>, hence a subset of it.
\<close>

theorem top_n_sorted_stable_monotone:
  assumes "agg_column (sums_dtype frame) score_column = Inr f"
  shows "\<exists>res res'. nlargest n score_column frame = Inr res
      \<and> nlargest (n + 1) score_column frame = Inr res'
      \<and> length res = min (nat n) (length (agg_rows frame))
      \<and> mset res \<subseteq># mset (agg_rows frame)
      \<and> sorted_wrt (\<lambda>a b. f b \<le> f a) res
      \<and> (\<forall>a \<in> set res. \<forall>b \<in># mset (agg_rows frame) - mset res. f b \<le> f a)
      \<and> (\<forall>v. \<exists>m. filter (\<lambda>r. f r = v) res = take m (filter (\<lambda>r. f r = v) (agg_rows frame)))
      \<and> set res \<subseteq> set res' \<and> res = take (nat n) res'"
proof -
  let ?agg = "agg_rows frame"
  let ?S = "sort_desc f ?agg"
  let ?res = "take (nat n) ?S" and ?res' = "take (nat (n + 1)) ?S"
  have split: "mset ?agg = mset ?res + mset (drop (nat n) ?S)"
    by (metis append_take_drop_id mset_append mset_sort_desc)
  have 1: "length ?res = min (nat n) (length ?agg)"
    by (simp add: length_sort_desc min.commute)
  have 2: "mset ?res \<subseteq># mset ?agg"
    using split by simp
  have 3: "sorted_wrt (\<lambda>a b. f b \<le> f a) ?res"
    using sorted_sort_desc [of f ?agg] by (rule sorted_wrt_take)
  have rest: "mset ?agg - mset ?res = mset (drop (nat n) ?S)"
    using split by simp
  have 4: "\<forall>a \<in> set ?res. \<forall>b \<in># mset ?agg - mset ?res. f b \<le> f a"
    unfolding rest using sorted_take_drop [OF sorted_sort_desc [of f ?agg]] by auto
  have 5: "\<forall>v. \<exists>m. filter (\<lambda>r. f r = v) ?res = take m (filter (\<lambda>r. f r = v) ?agg)"
  proof
    fix v
    have "filter (\<lambda>r. f r = v) ?res
        = take (length (filter (\<lambda>r. f r = v) ?res)) (filter (\<lambda>r. f r = v) ?S)"
      by (rule filter_take_prefix)
    then show "\<exists>m. filter (\<lambda>r. f r = v) ?res = take m (filter (\<lambda>r. f r = v) ?agg)"
      unfolding sort_desc_stable by blast
  qed
  have 6: "?res = take (nat n) ?res'"
    by (simp add: min_def)
  then have 7: "set ?res \<subseteq> set ?res'"
    by (metis set_take_subset)
  show ?thesis
    using 1 2 3 4 5 6 7 by (simp only: nlargest_Inr [OF assms]) blast
qed

theorem top_n_sorted_stable_monotone_witness:
  "agg_column Int64 ''normalized_score'' = Inr normalized_score
   \<and> nlargest 1 ''normalized_score''
      \<lparr>sums_dtype = Int64, agg_rows =
       [\<lparr>Area = ''Aley'', parks_exist = 1, parks_bad = 0, lighting_bad = 0,
        lighting_acceptable = 1, lighting_good = 0, parks_good = 0, parks_acceptable = 1,
        town_count = 1, total_score = 2, normalized_score = Finite 2\<rparr>,
       \<lparr>Area = ''Zahle'', parks_exist = 2, parks_bad = 0, lighting_bad = 0,
        lighting_acceptable = 1, lighting_good = 1, parks_good = 1, parks_acceptable = 1,
        town_count = 2, total_score = 4, normalized_score = Finite 2\<rparr>]\<rparr>
     = Inr [\<lparr>Area = ''Aley'', parks_exist = 1, parks_bad = 0, lighting_bad = 0,
        lighting_acceptable = 1, lighting_good = 0, parks_good = 0, parks_acceptable = 1,
        town_count = 1, total_score = 2, normalized_score = Finite 2\<rparr>]
   \<and> nlargest (1 + 1) ''normalized_score''
      \<lparr>sums_dtype = Int64, agg_rows =
       [\<lparr>Area = ''Aley'', parks_exist = 1, parks_bad = 0, lighting_bad = 0,
        lighting_acceptable = 1, lighting_good = 0, parks_good = 0, parks_acceptable = 1,
        town_count = 1, total_score = 2, normalized_score = Finite 2\<rparr>,
       \<lparr>Area = ''Zahle'', parks_exist = 2, parks_bad = 0, lighting_bad = 0,
        lighting_acceptable = 1, lighting_good = 1, parks_good = 1, parks_acceptable = 1,
        town_count = 2, total_score = 4, normalized_score = Finite 2\<rparr>]\<rparr>
     = Inr [\<lparr>Area = ''Aley'', parks_exist = 1, parks_bad = 0, lighting_bad = 0,
        lighting_acceptable = 1, lighting_good = 0, parks_good = 0, parks_acceptable = 1,
        town_count = 1, total_score = 2, normalized_score = Finite 2\<rparr>,
       \<lparr>Area = ''Zahle'', parks_exist = 2, parks_bad = 0, lighting_bad = 0,
        lighting_acceptable = 1, lighting_good = 1, parks_good = 1, parks_acceptable = 1,
        town_count = 2, total_score = 4, normalized_score = Finite 2\<rparr>]
   \<and> [\<lparr>Area = ''Aley'', parks_exist = 1, parks_bad = 0, lighting_bad = 0,
        lighting_acceptable = 1, lighting_good = 0, parks_good = 0, parks_acceptable = 1,
        town_count = 1, total_score = 2, normalized_score = Finite 2\<rparr>]
     = take (nat 1)
      [\<lparr>Area = ''Aley'', parks_exist = 1, parks_bad = 0, lighting_bad = 0,
        lighting_acceptable = 1, lighting_good = 0, parks_good = 0, parks_acceptable = 1,
        town_count = 1, total_score = 2, normalized_score = Finite 2\<rparr>,
       \<lparr>Area = ''Zahle'', parks_exist = 2, parks_bad = 0, lighting_bad = 0,
        lighting_acceptable = 1, lighting_good = 1, parks_good = 1, parks_acceptable = 1,
        town_count = 2, total_score = 4, normalized_score = Finite 2\<rparr>]"
proof -
  let ?a = "\<lparr>Area = ''Aley'', parks_exist = 1, parks_bad = 0, lighting_bad = 0,
        lighting_acceptable = 1, lighting_good = 0, parks_good = 0, parks_acceptable = 1,
        town_count = 1, total_score = 2, normalized_score = Finite 2\<rparr>"
  let ?z = "\<lparr>Area = ''Zahle'', parks_exist = 2, parks_bad = 0, lighting_bad = 0,
        lighting_acceptable = 1, lighting_good = 1, parks_good = 1, parks_acceptable = 1,
        town_count = 2, total_score = 4, normalized_score = Finite 2\<rparr>"
  let ?frame = "\<lparr>sums_dtype = Int64, agg_rows = [?a, ?z]\<rparr>"
  have h: "agg_column (sums_dtype ?frame) ''normalized_score'' = Inr normalized_score"
    by (simp add: column_eval)
  have e1: "nlargest 1 ''normalized_score'' ?frame = Inr [?a]"
    by (simp add: nlargest_def column_eval less_eq_pyfloat_def)
  have e2: "nlargest (1 + 1) ''normalized_score'' ?frame = Inr [?a, ?z]"
    by (simp add: nlargest_def column_eval less_eq_pyfloat_def)
  from top_n_sorted_stable_monotone [OF h, of 1]
  have "\<exists>res res'. Inr [?a] = Inr res \<and> Inr [?a, ?z] = Inr res' \<and> res = take (nat 1) res'"
    unfolding e1 e2 by blast
  then have "[?a] = take (nat 1) [?a, ?z]"
    by (simp only: sum.inject) blast
  moreover have "agg_column Int64 ''normalized_score'' = Inr normalized_score"
    using h by simp
  ultimately show ?thesis using e1 e2 by (simp only: simp_thms)
qed

text \<open>
  Claim C9, as stated, on a cleaned table without rows: its aggregated table has no rows, so
  every \<open>n \<ge> 0\<close> is at least the number of rows, and the script's selection raises
  \<open>TypeError\<close>.
\<close>

theorem top_entities_of_empty_table_raises: "top_entities [] 5 = Inl TypeError"
  by (simp add: top_entities_def aggregate_data_def columns_def group_keys_def
      indicator_dtype_def nlargest_def column_eval)

text \<open>
  Claim C9, amended.  For an aggregated table whose score column is numeric, as it is in every
  table aggregated from a cleaned table that has rows, the selection does not fail; for a
  count \<open>n \<ge> 0\<close> it returns exactly \<open>min n (number of rows)\<close> rows, and when \<open>n\<close> is at least
  the number of rows it returns all the rows of the table, in descending order of the score.
\<close>

theorem top_n_all_rows:
  assumes "agg_column (sums_dtype frame) score_column = Inr f"
  shows "\<exists>res. nlargest n score_column frame = Inr res
      \<and> (0 \<le> n \<longrightarrow> int (length res) = min n (int (length (agg_rows frame))))
      \<and> (int (length (agg_rows frame)) \<le> n \<longrightarrow>
            mset res = mset (agg_rows frame) \<and> sorted_wrt (\<lambda>a b. f b \<le> f a) res)"
proof -
  let ?agg = "agg_rows frame"
  let ?S = "sort_desc f ?agg"
  have 1: "0 \<le> n \<longrightarrow> int (length (take (nat n) ?S)) = min n (int (length ?agg))"
    by (auto simp: length_sort_desc min_def)
  have 2: "int (length ?agg) \<le> n \<longrightarrow> mset (take (nat n) ?S) = mset ?agg
             \<and> sorted_wrt (\<lambda>a b. f b \<le> f a) (take (nat n) ?S)"
    by (auto simp: length_sort_desc mset_sort_desc sorted_sort_desc)
  show ?thesis using 1 2 by (simp only: nlargest_Inr [OF assms]) blast
qed

theorem top_n_all_rows_witness:
  "agg_column Int64 ''total_score'' = Inr (\<lambda>r. Finite (of_int (total_score r)))
   \<and> (0::int) \<le> 5 \<and> int (length
      [\<lparr>Area = ''Aley'', parks_exist = 1, parks_bad = 0, lighting_bad = 0,
        lighting_acceptable = 1, lighting_good = 0, parks_good = 0, parks_acceptable = 1,
        town_count = 1, total_score = 2, normalized_score = Finite 2\<rparr>,
       \<lparr>Area = ''Zahle'', parks_exist = 2, parks_bad = 0, lighting_bad = 0,
        lighting_acceptable = 1, lighting_good = 1, parks_good = 1, parks_acceptable = 1,
        town_count = 2, total_score = 4, normalized_score = Finite 2\<rparr>]) \<le> 5
   \<and> nlargest 5 ''total_score''
      \<lparr>sums_dtype = Int64, agg_rows =
       [\<lparr>Area = ''Aley'', parks_exist = 1, parks_bad = 0, lighting_bad = 0,
        lighting_acceptable = 1, lighting_good = 0, parks_good = 0, parks_acceptable = 1,
        town_count = 1, total_score = 2, normalized_score = Finite 2\<rparr>,
       \<lparr>Area = ''Zahle'', parks_exist = 2, parks_bad = 0, lighting_bad = 0,
        lighting_acceptable = 1, lighting_good = 1, parks_good = 1, parks_acceptable = 1,
        town_count = 2, total_score = 4, normalized_score = Finite 2\<rparr>]\<rparr>
     = Inr [\<lparr>Area = ''Zahle'', parks_exist = 2, parks_bad = 0, lighting_bad = 0,
        lighting_acceptable = 1, lighting_good = 1, parks_good = 1, parks_acceptable = 1,
        town_count = 2, total_score = 4, normalized_score = Finite 2\<rparr>,
       \<lparr>Area = ''Aley'', parks_exist = 1, parks_bad = 0, lighting_bad = 0,
        lighting_acceptable = 1, lighting_good = 0, parks_good = 0, parks_acceptable = 1,
        town_count = 1, total_score = 2, normalized_score = Finite 2\<rparr>]
   \<and> int (length [\<lparr>Area = ''Zahle'', parks_exist = 2, parks_bad = 0, lighting_bad = 0,
        lighting_acceptable = 1, lighting_good = 1, parks_good = 1, parks_acceptable = 1,
        town_count = 2, total_score = 4, normalized_score = Finite 2\<rparr>,
       \<lparr>Area = ''Aley'', parks_exist = 1, parks_bad = 0, lighting_bad = 0,
        lighting_acceptable = 1, lighting_good = 0, parks_good = 0, parks_acceptable = 1,
        town_count = 1, total_score = 2, normalized_score = Finite 2\<rparr>]) = min 5 2"
proof -
  let ?a = "\<lparr>Area = ''Aley'', parks_exist = 1, parks_bad = 0, lighting_bad = 0,
        lighting_acceptable = 1, lighting_good = 0, parks_good = 0, parks_acceptable = 1,
        town_count = 1, total_score = 2, normalized_score = Finite 2\<rparr>"
  let ?z = "\<lparr>Area = ''Zahle'', parks_exist = 2, parks_bad = 0, lighting_bad = 0,
        lighting_acceptable = 1, lighting_good = 1, parks_good = 1, parks_acceptable = 1,
        town_count = 2, total_score = 4, normalized_score = Finite 2\<rparr>"
  let ?frame = "\<lparr>sums_dtype = Int64, agg_rows = [?a, ?z]\<rparr>"
  have h: "agg_column (sums_dtype ?frame) ''total_score''
      = Inr (\<lambda>r. Finite (of_int (total_score r)))"
    by (simp add: column_eval)
  have e: "nlargest 5 ''total_score'' ?frame = Inr [?z, ?a]"
    by (simp add: nlargest_def column_eval less_eq_pyfloat_def)
  from top_n_all_rows [OF h, of 5]
  have "int (length [?z, ?a]) = min 5 (int (length [?a, ?z]))"
    unfolding e by simp
  moreover have "agg_column Int64 ''total_score'' = Inr (\<lambda>r. Finite (of_int (total_score r)))"
    using h by simp
  ultimately show ?thesis using e by simp
qed

subsection \<open>Lemmas on the detail view\<close>

lemma iloc0_filter:
  assumes "name \<in> Area ` set rows"
  shows "\<exists>d pre post. entity_data rows name = Inr d \<and> rows = pre @ d # post
           \<and> Area d = name \<and> name \<notin> Area ` set pre"
proof -
  from assms have "filter (\<lambda>r. Area r = name) rows \<noteq> []"
    by (auto simp: filter_empty_conv)
  then obtain d ds where f: "filter (\<lambda>r. Area r = name) rows = d # ds"
    by (cases "filter (\<lambda>r. Area r = name) rows") auto
  then obtain pre post where r: "rows = pre @ d # post"
    and p: "\<forall>u \<in> set pre. Area u \<noteq> name" and a: "Area d = name"
    unfolding filter_eq_Cons_iff by blast
  from f have e: "entity_data rows name = Inr d"
    by (simp add: entity_data_def iloc0_def)
  from p have n: "name \<notin> Area ` set pre" by blast
  have "entity_data rows name = Inr d \<and> rows = pre @ d # post
           \<and> Area d = name \<and> name \<notin> Area ` set pre"
    using e r a n by (intro conjI)
  then show ?thesis by (intro exI)
qed

lemma entity_data_absent:
  assumes "name \<notin> Area ` set rows"
  shows "entity_data rows name = Inl IndexError"
proof -
  from assms have "\<forall>r \<in> set rows. Area r \<noteq> name" by blast
  then have "filter (\<lambda>r. Area r = name) rows = []"
    by (simp add: filter_empty_conv)
  then show ?thesis by (simp add: entity_data_def iloc0_def)
qed

lemma detail_view_offered:
  assumes "selectbox_value (map Area top_rows) sel"
  shows "\<exists>res. detail_view df top_rows sel = Inr res
      \<and> (res = None \<longleftrightarrow> sel = None \<or> sel = Some [])
      \<and> (\<forall>d towns. res = Some (d, towns) \<longrightarrow>
            sel = Some (Area d) \<and> towns = related_towns df (Area d)
            \<and> (\<exists>pre post. top_rows = pre @ d # post \<and> Area d \<notin> Area ` set pre))"
proof (cases sel)
  case None
  then show ?thesis by (simp add: detail_view_def)
next
  case (Some name)
  show ?thesis
  proof (cases "name = []")
    case True
    with Some show ?thesis by (simp add: detail_view_def)
  next
    case False
    from assms Some have "name \<in> Area ` set top_rows"
      by (simp add: selectbox_value_def)
    from iloc0_filter [OF this] obtain d pre post where
      d: "entity_data top_rows name = Inr d" "top_rows = pre @ d # post"
         "Area d = name" "name \<notin> Area ` set pre"
      by blast
    have res: "detail_view df top_rows sel = Inr (Some (d, related_towns df name))"
      using Some False d(1) by (simp add: detail_view_def)
    show ?thesis
    proof (rule exI [of _ "Some (d, related_towns df name)"], intro conjI allI impI)
      show "detail_view df top_rows sel = Inr (Some (d, related_towns df name))"
        by (rule res)
      show "(Some (d, related_towns df name) = None) = (sel = None \<or> sel = Some [])"
        using Some False by simp
    next
      fix d' towns
      assume "Some (d, related_towns df name) = Some (d', towns)"
      then have eq: "d' = d" "towns = related_towns df name" by simp_all
      show "sel = Some (Area d')" using eq(1) Some d(3) by simp
      show "towns = related_towns df (Area d')" using eq d(3) by simp
      have "top_rows = pre @ d' # post \<and> Area d' \<notin> Area ` set pre"
        unfolding eq(1) using d(2,3,4) by simp
      then show "\<exists>pre post. top_rows = pre @ d' # post \<and> Area d' \<notin> Area ` set pre"
        by blast
    qed
  qed
qed

text \<open>
  Claim C7, as stated, at a name that is not in the ranking: the positional access raises
  \<open>IndexError\<close>; there is no not-found result.
\<close>

theorem detail_lookup_absent_name:
  "''Baabda'' \<notin> set (map Area [\<lparr>Area = ''Aley'', parks_exist = 1, parks_bad = 0, lighting_bad = 0,
        lighting_acceptable = 1, lighting_good = 0, parks_good = 0, parks_acceptable = 1,
        town_count = 1, total_score = 2, normalized_score = Finite 2\<rparr>])
   \<and> entity_data [\<lparr>Area = ''Aley'', parks_exist = 1, parks_bad = 0, lighting_bad = 0,
        lighting_acceptable = 1, lighting_good = 0, parks_good = 0, parks_acceptable = 1,
        town_count = 1, total_score = 2, normalized_score = Finite 2\<rparr>] ''Baabda'' = Inl IndexError
   \<and> detail_view [\<lparr>Area = ''Aley'', parks_exist = 1, parks_bad = 0, lighting_bad = 0,
        lighting_acceptable = 1, lighting_good = 0, parks_good = 0, parks_acceptable = 1,
        Town = Some ''Bhamdoun''\<rparr>]
        [\<lparr>Area = ''Aley'', parks_exist = 1, parks_bad = 0, lighting_bad = 0,
        lighting_acceptable = 1, lighting_good = 0, parks_good = 0, parks_acceptable = 1,
        town_count = 1, total_score = 2, normalized_score = Finite 2\<rparr>] (Some ''Baabda'') = Inl IndexError"
  by (simp add: detail_view_def entity_data_def iloc0_def)

text \<open>
  Claim C7, amended.  The name comes from the select box, which offers the areas of the ranking
  and nothing else.  For such a value the detail view does not raise: it shows nothing when
  nothing is selected (or the selected name is empty), and otherwise the first row of the
  ranking with that name, together with the towns of that area.
\<close>

theorem detail_lookup_offered_name:
  assumes "selectbox_value (map Area top_rows) sel"
  shows "\<exists>res. detail_view df top_rows sel = Inr res
      \<and> (res = None \<longleftrightarrow> sel = None \<or> sel = Some [])
      \<and> (\<forall>d towns. res = Some (d, towns) \<longrightarrow>
            sel = Some (Area d) \<and> towns = related_towns df (Area d)
            \<and> (\<exists>pre post. top_rows = pre @ d # post \<and> Area d \<notin> Area ` set pre))"
  using assms by (rule detail_view_offered)


theorem detail_lookup_offered_name_witness:
  "selectbox_value (map Area [\<lparr>Area = ''Aley'', parks_exist = 1, parks_bad = 0, lighting_bad = 0,
        lighting_acceptable = 1, lighting_good = 0, parks_good = 0, parks_acceptable = 1,
        town_count = 1, total_score = 2, normalized_score = Finite 2\<rparr>]) (Some ''Aley'')
   \<and> detail_view [\<lparr>Area = ''Aley'', parks_exist = 1, parks_bad = 0, lighting_bad = 0,
        lighting_acceptable = 1, lighting_good = 0, parks_good = 0, parks_acceptable = 1,
        Town = Some ''Bhamdoun''\<rparr>]
        [\<lparr>Area = ''Aley'', parks_exist = 1, parks_bad = 0, lighting_bad = 0,
        lighting_acceptable = 1, lighting_good = 0, parks_good = 0, parks_acceptable = 1,
        town_count = 1, total_score = 2, normalized_score = Finite 2\<rparr>] (Some ''Aley'')
     = Inr (Some (\<lparr>Area = ''Aley'', parks_exist = 1, parks_bad = 0, lighting_bad = 0,
        lighting_acceptable = 1, lighting_good = 0, parks_good = 0, parks_acceptable = 1,
        town_count = 1, total_score = 2, normalized_score = Finite 2\<rparr>,
        [Some ''Bhamdoun'']))"
proof -
  let ?a = "\<lparr>Area = ''Aley'', parks_exist = 1, parks_bad = 0, lighting_bad = 0,
        lighting_acceptable = 1, lighting_good = 0, parks_good = 0, parks_acceptable = 1,
        town_count = 1, total_score = 2, normalized_score = Finite 2\<rparr>"
  let ?df = "[\<lparr>Area = ''Aley'', parks_exist = 1, parks_bad = 0, lighting_bad = 0,
        lighting_acceptable = 1, lighting_good = 0, parks_good = 0, parks_acceptable = 1,
        Town = Some ''Bhamdoun''\<rparr>]"
  have h: "selectbox_value (map Area [?a]) (Some ''Aley'')"
    by (simp add: selectbox_value_def)
  have e: "detail_view ?df [?a] (Some ''Aley'') = Inr (Some (?a, [Some ''Bhamdoun'']))"
    by (simp add: detail_view_def entity_data_def iloc0_def related_towns_def)
  from detail_lookup_offered_name [OF h, of ?df]
  have "\<exists>res. detail_view ?df [?a] (Some ''Aley'') = Inr res" by blast
  with h e show ?thesis by (simp only: simp_thms)
qed

subsection \<open>Lemmas on the pie charts\<close>

lemma pie_data_indicator:
  assumes "var \<in> set columns" and "var \<noteq> ''Area''" and "var \<noteq> ''Town''"
  shows "\<exists>c. get_column var = Some (IntColumn c)
     \<and> pie_data fd var
         = Inr (map (\<lambda>k. (k, IntCell (sum_list (map c (filter (\<lambda>r. Area r = k) fd)))))
                    (sort (remdups (map Area fd))))"
proof -
  from assms have "var \<in> set binary_vars"
    by (simp add: columns_def binary_vars_def)
  then obtain c where c: "get_column var = Some (IntColumn c)"
    by (auto simp: binary_vars_def get_column_def)
  with assms(2) have "pie_data fd var
         = Inr (map (\<lambda>k. (k, IntCell (sum_list (map c (filter (\<lambda>r. Area r = k) fd)))))
                    (sort (remdups (map Area fd))))"
    by (simp add: pie_data_def group_keys_def get_group_def)
  with c show ?thesis by (intro exI conjI)
qed

lemma subplot_traces_indicators:
  assumes "''Area'' \<notin> set vars" and "''Town'' \<notin> set vars"
  shows "\<exists>ps. subplot_traces fd j vars = Inr ps
     \<and> map pie_var ps = filter (\<lambda>v. v \<in> set columns) vars
     \<and> (\<forall>p \<in> set ps. \<exists>c. get_column (pie_var p) = Some (IntColumn c)
           \<and> pie_slices p
               = map (\<lambda>k. (k, IntCell (sum_list (map c (filter (\<lambda>r. Area r = k) fd)))))
                     (sort (remdups (map Area fd))))"
  using assms
proof (induction vars arbitrary: j)
  case Nil
  then show ?case by simp
next
  case (Cons var vars)
  from Cons.prems have va: "var \<noteq> ''Area''" "var \<noteq> ''Town''"
    and rest: "''Area'' \<notin> set vars" "''Town'' \<notin> set vars" by auto
  from Cons.IH [OF rest, of "Suc j"] obtain ps where
    ps: "subplot_traces fd (Suc j) vars = Inr ps"
        "map pie_var ps = filter (\<lambda>v. v \<in> set columns) vars"
        "\<forall>p \<in> set ps. \<exists>c. get_column (pie_var p) = Some (IntColumn c)
           \<and> pie_slices p
               = map (\<lambda>k. (k, IntCell (sum_list (map c (filter (\<lambda>r. Area r = k) fd)))))
                     (sort (remdups (map Area fd)))"
    by blast
  show ?case
  proof (cases "var \<in> set columns")
    case False
    with ps show ?thesis by simp
  next
    case True
    from pie_data_indicator [OF True va, of fd] obtain c where
      c: "get_column var = Some (IntColumn c)"
         "pie_data fd var
         = Inr (map (\<lambda>k. (k, IntCell (sum_list (map c (filter (\<lambda>r. Area r = k) fd)))))
                    (sort (remdups (map Area fd))))"
      by blast
    with True ps show ?thesis by simp
  qed
qed

lemma figures_indicators:
  assumes "''Area'' \<notin> set (concat chunks)" and "''Town'' \<notin> set (concat chunks)"
  shows "\<exists>figs. figures fd chunks = Inr figs
     \<and> length figs = length chunks
     \<and> map pie_var (concat figs) = filter (\<lambda>v. v \<in> set columns) (concat chunks)
     \<and> (\<forall>p \<in> set (concat figs). \<exists>c. get_column (pie_var p) = Some (IntColumn c)
           \<and> pie_slices p
               = map (\<lambda>k. (k, IntCell (sum_list (map c (filter (\<lambda>r. Area r = k) fd)))))
                     (sort (remdups (map Area fd))))"
  using assms
proof (induction chunks)
  case Nil
  then show ?case by simp
next
  case (Cons vars chunks)
  from Cons.prems have here: "''Area'' \<notin> set vars" "''Town'' \<notin> set vars"
    and rest: "''Area'' \<notin> set (concat chunks)" "''Town'' \<notin> set (concat chunks)" by auto
  from subplot_traces_indicators [OF here, of fd 0] obtain ps where
    ps: "subplot_traces fd 0 vars = Inr ps"
        "map pie_var ps = filter (\<lambda>v. v \<in> set columns) vars"
        "\<forall>p \<in> set ps. \<exists>c. get_column (pie_var p) = Some (IntColumn c)
           \<and> pie_slices p
               = map (\<lambda>k. (k, IntCell (sum_list (map c (filter (\<lambda>r. Area r = k) fd)))))
                     (sort (remdups (map Area fd)))"
    by blast
  from Cons.IH [OF rest] obtain figs where
    figs: "figures fd chunks = Inr figs" "length figs = length chunks"
        "map pie_var (concat figs) = filter (\<lambda>v. v \<in> set columns) (concat chunks)"
        "\<forall>p \<in> set (concat figs). \<exists>c. get_column (pie_var p) = Some (IntColumn c)
           \<and> pie_slices p
               = map (\<lambda>k. (k, IntCell (sum_list (map c (filter (\<lambda>r. Area r = k) fd)))))
                     (sort (remdups (map Area fd)))"
    by blast
  have "figures fd (vars # chunks) = Inr (ps # figs)"
    using ps(1) figs(1) by simp
  moreover have "length (ps # figs) = length (vars # chunks)"
    using figs(2) by simp
  moreover have "map pie_var (concat (ps # figs))
      = filter (\<lambda>v. v \<in> set columns) (concat (vars # chunks))"
    using ps(2) figs(3) by simp
  moreover have "\<forall>p \<in> set (concat (ps # figs)). \<exists>c. get_column (pie_var p) = Some (IntColumn c)
           \<and> pie_slices p
               = map (\<lambda>k. (k, IntCell (sum_list (map c (filter (\<lambda>r. Area r = k) fd)))))
                     (sort (remdups (map Area fd)))"
    using ps(3) figs(4) by auto
  ultimately show ?case by blast
qed

lemma concat_pairs: "concat (pairs xs) = xs"
  by (induction xs rule: pairs.induct) simp_all

lemma length_pairs: "length (pairs xs) = (length xs + 1) div 2"
  by (induction xs rule: pairs.induct) simp_all

text \<open>
  Claim C10.  For a list of requested names that are indicator columns or no columns of the
  table at all (neither \<open>Area\<close> nor \<open>Town\<close>), the builder returns without error, one figure
  per pair of names; the pies are, in order, those of the requested names that are columns of
  the table, the others being skipped; and each pie holds, per area of the filtered rows, the
  sum of its column over the rows of that area.
\<close>

theorem pie_charts_for_present_columns:
  assumes "''Area'' \<notin> set variables" and "''Town'' \<notin> set variables"
  shows "\<exists>figs. create_binary_pie_charts data variables selected_areas = Inr figs
     \<and> length figs = (length variables + 1) div 2
     \<and> map pie_var (concat figs) = filter (\<lambda>v. v \<in> set columns) variables
     \<and> (\<forall>p \<in> set (concat figs). \<exists>c. get_column (pie_var p) = Some (IntColumn c)
           \<and> pie_slices p
               = map (\<lambda>k. (k, IntCell (sum_list (map c
                         (filter (\<lambda>r. Area r = k)
                            (filter (\<lambda>r. Area r \<in> set selected_areas) data))))))
                     (sort (remdups (map Area
                            (filter (\<lambda>r. Area r \<in> set selected_areas) data)))))"
proof -
  have "''Area'' \<notin> set (concat (pairs variables))" "''Town'' \<notin> set (concat (pairs variables))"
    using assms by (simp_all add: concat_pairs)
  from figures_indicators [OF this, of "filter (\<lambda>r. Area r \<in> set selected_areas) data"]
  show ?thesis
    by (simp add: create_binary_pie_charts_def isin_def concat_pairs length_pairs)
qed

theorem pie_charts_for_present_columns_witness:
  "''Area'' \<notin> set [''parks_exist'', ''no_such_column'', ''lighting_bad'']
   \<and> ''Town'' \<notin> set [''parks_exist'', ''no_such_column'', ''lighting_bad'']
   \<and> create_binary_pie_charts
        [\<lparr>Area = ''Aley'', parks_exist = 1, parks_bad = 0, lighting_bad = 0,
        lighting_acceptable = 1, lighting_good = 0, parks_good = 0, parks_acceptable = 1,
        Town = Some ''Bhamdoun''\<rparr>,
         \<lparr>Area = ''Zahle'', parks_exist = 0, parks_bad = 0, lighting_bad = 1,
        lighting_acceptable = 0, lighting_good = 0, parks_good = 0, parks_acceptable = 0,
        Town = Some ''Bar Elias''\<rparr>]
        [''parks_exist'', ''no_such_column'', ''lighting_bad''] [''Aley'', ''Zahle'']
     = Inr [ [\<lparr>pie_var = ''parks_exist'', pie_col = 1,
               pie_slices = [(''Aley'', IntCell 1), (''Zahle'', IntCell 0)]\<rparr>],
            [\<lparr>pie_var = ''lighting_bad'', pie_col = 1,
               pie_slices = [(''Aley'', IntCell 0), (''Zahle'', IntCell 1)]\<rparr>]]
   \<and> length [ [\<lparr>pie_var = ''parks_exist'', pie_col = 1,
               pie_slices = [(''Aley'', IntCell 1), (''Zahle'', IntCell 0)]\<rparr>],
            [\<lparr>pie_var = ''lighting_bad'', pie_col = 1,
               pie_slices = [(''Aley'', IntCell 0), (''Zahle'', IntCell 1)]\<rparr>]]
     = (length [''parks_exist'', ''no_such_column'', ''lighting_bad''] + 1) div 2"
proof -
  let ?vars = "[''parks_exist'', ''no_such_column'', ''lighting_bad'']"
  let ?df = "[\<lparr>Area = ''Aley'', parks_exist = 1, parks_bad = 0, lighting_bad = 0,
        lighting_acceptable = 1, lighting_good = 0, parks_good = 0, parks_acceptable = 1,
        Town = Some ''Bhamdoun''\<rparr>,
         \<lparr>Area = ''Zahle'', parks_exist = 0, parks_bad = 0, lighting_bad = 1,
        lighting_acceptable = 0, lighting_good = 0, parks_good = 0, parks_acceptable = 0,
        Town = Some ''Bar Elias''\<rparr>]"
  let ?figs = "[ [\<lparr>pie_var = ''parks_exist'', pie_col = 1,
               pie_slices = [(''Aley'', IntCell 1), (''Zahle'', IntCell 0)]\<rparr>],
            [\<lparr>pie_var = ''lighting_bad'', pie_col = 1,
               pie_slices = [(''Aley'', IntCell 0), (''Zahle'', IntCell 1)]\<rparr>]]"
  have h1: "''Area'' \<notin> set ?vars" and h2: "''Town'' \<notin> set ?vars" by simp_all
  have e: "create_binary_pie_charts ?df ?vars [''Aley'', ''Zahle''] = Inr ?figs"
    by (simp add: create_binary_pie_charts_def pie_data_def get_column_def isin_def columns_def
        group_keys_def get_group_def)
  from pie_charts_for_present_columns [OF h1 h2, of ?df "[''Aley'', ''Zahle'']"]
  have "\<exists>figs. Inr ?figs = Inr figs \<and> length figs = (length ?vars + 1) div 2"
    unfolding e by blast
  then have "length ?figs = (length ?vars + 1) div 2"
    by (simp only: sum.inject) blast
  with h1 h2 e show ?thesis by (simp only: simp_thms)
qed

subsection \<open>Lemmas on the script\<close>

lemma top_entities_Inr:
  "df \<noteq> [] \<Longrightarrow>
   top_entities df n
     = Inr (take (nat n) (sort_desc normalized_score (map (agg_group df) (group_keys df))))"
  by (simp add: top_entities_def aggregate_data_Area nlargest_def indicator_dtype_def column_eval)

lemma length_group_keys: "length (group_keys df) = card (Area ` set df)"
  by (simp add: group_keys_def length_remdups_card_conv)

lemma filtered_df_empty_selection: "filtered_df df [] = []"
  by (simp add: filtered_df_def isin_def)

lemma groupby_sum_empty: "groupby_sum [] cols = []"
  by (simp add: groupby_sum_def group_keys_def)

lemma binary_vars_pies:
  "\<exists>figs. create_binary_pie_charts df binary_vars selected = Inr figs"
proof -
  have "''Area'' \<notin> set (concat (pairs binary_vars))" "''Town'' \<notin> set (concat (pairs binary_vars))"
    by (simp_all add: concat_pairs binary_vars_def)
  from figures_indicators [OF this, of "filter (\<lambda>r. isin (Area r) selected) df"]
  show ?thesis unfolding create_binary_pie_charts_def by blast
qed

lemma set_unique: "set (unique xs) = set xs"
  by (induction xs rule: unique.induct) auto

lemma join_present: "None \<notin> set items \<Longrightarrow> \<exists>line. join sep items = Inr line"
  by (simp add: join_def)

lemmas app_eval = app_def top_entities_def nlargest_def column_eval indicator_dtype_def agg_eval
  detail_view_def entity_data_def iloc0_def related_towns_def towns_line_def join_def
  create_binary_pie_charts_def binary_vars_def pie_data_def get_column_def isin_def
  filtered_df_def lighting_data_def parks_data_def groupby_sum_def

text \<open>
  Two runs that end in an exception.  On a table without rows the ranking is asked of
  \<open>object\<close> columns and raises; and when the selected area has a row without a town, the line
  of towns cannot be joined.
\<close>

lemma app_on_empty_table: "app [] w = Inl TypeError"
  by (simp add: app_def top_entities_def aggregate_data_def columns_def group_keys_def
      indicator_dtype_def nlargest_def column_eval)

lemma app_on_missing_town:
  "app [\<lparr>Area = ''Aley'', parks_exist = 1, parks_bad = 0, lighting_bad = 0,
         lighting_acceptable = 1, lighting_good = 0, parks_good = 0, parks_acceptable = 1,
         Town = None\<rparr>]
       \<lparr>sidebar_areas = [''Aley''], num_top_entities = 10, selected_entity = Some ''Aley'',
         comparison_areas = [''Aley'']\<rparr>
   = Inl TypeError"
  by (simp add: app_eval)

text \<open>
  Claim C1, as stated, on a table of one row with nothing selected in the sidebar and one
  area selected for comparison: the filter yields no row, yet the ranking still has its row
  and no warning is issued.
\<close>

theorem ranking_ignores_sidebar_selection:
  "sidebar_areas
       \<lparr>sidebar_areas = [], num_top_entities = 10, selected_entity = Some ''Aley'',
        comparison_areas = [''Aley'']\<rparr> = []
   \<and> filtered_df [\<lparr>Area = ''Aley'', parks_exist = 1, parks_bad = 0, lighting_bad = 0,
        lighting_acceptable = 1, lighting_good = 0, parks_good = 0, parks_acceptable = 1,
        Town = Some ''Bhamdoun''\<rparr>] [] = []
   \<and> \<not> isl (app [\<lparr>Area = ''Aley'', parks_exist = 1, parks_bad = 0, lighting_bad = 0,
        lighting_acceptable = 1, lighting_good = 0, parks_good = 0, parks_acceptable = 1,
        Town = Some ''Bhamdoun''\<rparr>]
       \<lparr>sidebar_areas = [], num_top_entities = 10, selected_entity = Some ''Aley'',
        comparison_areas = [''Aley'']\<rparr>)
   \<and> map Area (shown_top (projr (app [\<lparr>Area = ''Aley'', parks_exist = 1, parks_bad = 0, lighting_bad = 0,
        lighting_acceptable = 1, lighting_good = 0, parks_good = 0, parks_acceptable = 1,
        Town = Some ''Bhamdoun''\<rparr>]
       \<lparr>sidebar_areas = [], num_top_entities = 10, selected_entity = Some ''Aley'',
        comparison_areas = [''Aley'']\<rparr>))) = [''Aley'']
   \<and> shown_warnings (projr (app [\<lparr>Area = ''Aley'', parks_exist = 1, parks_bad = 0, lighting_bad = 0,
        lighting_acceptable = 1, lighting_good = 0, parks_good = 0, parks_acceptable = 1,
        Town = Some ''Bhamdoun''\<rparr>]
       \<lparr>sidebar_areas = [], num_top_entities = 10, selected_entity = Some ''Aley'',
        comparison_areas = [''Aley'']\<rparr>)) = []"
  by (simp add: app_eval)

text \<open>
  Claim C1, amended.  With an empty sidebar selection the filtered table has no rows, and the
  lighting and parks sums computed from it have no rows; computing them raises nothing.  The
  ranking is computed from the unfiltered table.  When that table has rows, the selected
  entity is a value of the select box over the ranking, and every row of the selected area has
  its town, the script runs without error: the ranking is the result of \<open>top_entities\<close> on
  \<open>df\<close>, with \<open>min n (number of areas of df)\<close> rows, and a warning is issued exactly when the
  comparison selection of the pie charts is empty.
\<close>

theorem empty_sidebar_selection:
  assumes "sidebar_areas w = []"
    and "df \<noteq> []"
    and "selectbox_value (map Area (projr (top_entities df (num_top_entities w))))
           (selected_entity w)"
    and "\<forall>r \<in> set df. selected_entity w = Some (Area r) \<longrightarrow> Town r \<noteq> None"
  shows "filtered_df df (sidebar_areas w) = []
     \<and> lighting_data (filtered_df df (sidebar_areas w)) = []
     \<and> parks_data (filtered_df df (sidebar_areas w)) = []
     \<and> (\<exists>pg. app df w = Inr pg
          \<and> shown_lighting pg = [] \<and> shown_parks pg = []
          \<and> top_entities df (num_top_entities w) = Inr (shown_top pg)
          \<and> length (shown_top pg) = min (nat (num_top_entities w)) (card (Area ` set df))
          \<and> (shown_warnings pg = [] \<longleftrightarrow> comparison_areas w \<noteq> []))"
proof -
  let ?n = "num_top_entities w"
  define top_rows where
    "top_rows = take (nat ?n) (sort_desc normalized_score (map (agg_group df) (group_keys df)))"
  have t: "top_entities df ?n = Inr top_rows"
    unfolding top_rows_def using assms(2) by (rule top_entities_Inr)
  have len: "length top_rows = min (nat ?n) (card (Area ` set df))"
    unfolding top_rows_def by (simp add: length_sort_desc length_group_keys min.commute)
  from assms(3) have "selectbox_value (map Area top_rows) (selected_entity w)"
    by (simp add: t)
  from detail_view_offered [OF this, of df] obtain d where
    d: "detail_view df top_rows (selected_entity w) = Inr d"
    and dt: "\<forall>e towns. d = Some (e, towns) \<longrightarrow>
            selected_entity w = Some (Area e) \<and> towns = related_towns df (Area e)"
    by blast
  have "\<exists>line. towns_line d = Inr line"
  proof (cases d)
    case None
    then show ?thesis by (simp add: towns_line_def)
  next
    case (Some p)
    obtain e towns where p: "p = (e, towns)" by (cases p)
    with Some dt have sel: "selected_entity w = Some (Area e)"
      and towns: "towns = related_towns df (Area e)" by simp_all
    have "None \<notin> set towns"
    proof
      assume "None \<in> set towns"
      then obtain r where "r \<in> set df" "Area r = Area e" "Town r = None"
        unfolding towns related_towns_def set_unique by force
      with assms(4) sel show False by auto
    qed
    from join_present [OF this, of "'', ''"] obtain line where "join '', '' towns = Inr line"
      by blast
    with Some p show ?thesis by (simp add: towns_line_def)
  qed
  then obtain line where line: "towns_line d = Inr line" by blast
  have f: "filtered_df df (sidebar_areas w) = []"
    using assms(1) by (simp add: filtered_df_empty_selection)
  have l: "lighting_data [] = []" "parks_data [] = []"
    by (simp_all add: lighting_data_def parks_data_def groupby_sum_empty)
  have "\<exists>pg. app df w = Inr pg
          \<and> shown_lighting pg = [] \<and> shown_parks pg = []
          \<and> shown_top pg = top_rows
          \<and> (shown_warnings pg = [] \<longleftrightarrow> comparison_areas w \<noteq> [])"
  proof (cases "comparison_areas w = []")
    case True
    then show ?thesis by (simp add: app_def t d line f l)
  next
    case False
    from binary_vars_pies [of df "comparison_areas w"] obtain figs where
      "create_binary_pie_charts df binary_vars (comparison_areas w) = Inr figs" by blast
    with False show ?thesis by (simp add: app_def t d line f l)
  qed
  then obtain pg where pg: "app df w = Inr pg" "shown_lighting pg = []" "shown_parks pg = []"
    "shown_top pg = top_rows" "shown_warnings pg = [] \<longleftrightarrow> comparison_areas w \<noteq> []"
    by blast
  have "app df w = Inr pg
          \<and> shown_lighting pg = [] \<and> shown_parks pg = []
          \<and> top_entities df (num_top_entities w) = Inr (shown_top pg)
          \<and> length (shown_top pg) = min (nat (num_top_entities w)) (card (Area ` set df))
          \<and> (shown_warnings pg = [] \<longleftrightarrow> comparison_areas w \<noteq> [])"
    using pg t len by simp
  then have "\<exists>pg. app df w = Inr pg
          \<and> shown_lighting pg = [] \<and> shown_parks pg = []
          \<and> top_entities df (num_top_entities w) = Inr (shown_top pg)
          \<and> length (shown_top pg) = min (nat (num_top_entities w)) (card (Area ` set df))
          \<and> (shown_warnings pg = [] \<longleftrightarrow> comparison_areas w \<noteq> [])"
    by (rule exI)
  with f l show ?thesis by simp
qed

theorem empty_sidebar_selection_witness:
  "sidebar_areas
       \<lparr>sidebar_areas = [], num_top_entities = 10, selected_entity = Some ''Aley'',
        comparison_areas = []\<rparr> = []
   \<and> [\<lparr>Area = ''Aley'', parks_exist = 1, parks_bad = 0, lighting_bad = 0,
        lighting_acceptable = 1, lighting_good = 0, parks_good = 0, parks_acceptable = 1,
        Town = Some ''Bhamdoun''\<rparr>] \<noteq> []
   \<and> selectbox_value (map Area (projr (top_entities [\<lparr>Area = ''Aley'', parks_exist = 1, parks_bad = 0, lighting_bad = 0,
        lighting_acceptable = 1, lighting_good = 0, parks_good = 0, parks_acceptable = 1,
        Town = Some ''Bhamdoun''\<rparr>] 10))) (Some ''Aley'')
   \<and> Town \<lparr>Area = ''Aley'', parks_exist = 1, parks_bad = 0, lighting_bad = 0,
        lighting_acceptable = 1, lighting_good = 0, parks_good = 0, parks_acceptable = 1,
        Town = Some ''Bhamdoun''\<rparr> \<noteq> None
   \<and> \<not> isl (app [\<lparr>Area = ''Aley'', parks_exist = 1, parks_bad = 0, lighting_bad = 0,
        lighting_acceptable = 1, lighting_good = 0, parks_good = 0, parks_acceptable = 1,
        Town = Some ''Bhamdoun''\<rparr>]
       \<lparr>sidebar_areas = [], num_top_entities = 10, selected_entity = Some ''Aley'',
        comparison_areas = []\<rparr>)
   \<and> shown_lighting (projr (app [\<lparr>Area = ''Aley'', parks_exist = 1, parks_bad = 0, lighting_bad = 0,
        lighting_acceptable = 1, lighting_good = 0, parks_good = 0, parks_acceptable = 1,
        Town = Some ''Bhamdoun''\<rparr>]
       \<lparr>sidebar_areas = [], num_top_entities = 10, selected_entity = Some ''Aley'',
        comparison_areas = []\<rparr>)) = []
   \<and> length (shown_top (projr (app [\<lparr>Area = ''Aley'', parks_exist = 1, parks_bad = 0, lighting_bad = 0,
        lighting_acceptable = 1, lighting_good = 0, parks_good = 0, parks_acceptable = 1,
        Town = Some ''Bhamdoun''\<rparr>]
       \<lparr>sidebar_areas = [], num_top_entities = 10, selected_entity = Some ''Aley'',
        comparison_areas = []\<rparr>))) = 1
   \<and> shown_warnings (projr (app [\<lparr>Area = ''Aley'', parks_exist = 1, parks_bad = 0, lighting_bad = 0,
        lighting_acceptable = 1, lighting_good = 0, parks_good = 0, parks_acceptable = 1,
        Town = Some ''Bhamdoun''\<rparr>]
       \<lparr>sidebar_areas = [], num_top_entities = 10, selected_entity = Some ''Aley'',
        comparison_areas = []\<rparr>)) = [''Please select at least one area for comparison.'']"
proof -
  let ?df = "[\<lparr>Area = ''Aley'', parks_exist = 1, parks_bad = 0, lighting_bad = 0,
        lighting_acceptable = 1, lighting_good = 0, parks_good = 0, parks_acceptable = 1,
        Town = Some ''Bhamdoun''\<rparr>]"
  let ?w = "\<lparr>sidebar_areas = [], num_top_entities = 10, selected_entity = Some ''Aley'',
        comparison_areas = []\<rparr>"
  have h1: "sidebar_areas ?w = []" by simp
  have h2: "?df \<noteq> []" by simp
  have h3: "selectbox_value (map Area (projr (top_entities ?df (num_top_entities ?w))))
      (selected_entity ?w)"
    by (simp add: selectbox_value_def top_entities_def nlargest_def column_eval
        indicator_dtype_def agg_eval)
  have h4: "\<forall>r \<in> set ?df. selected_entity ?w = Some (Area r) \<longrightarrow> Town r \<noteq> None"
    by simp
  from empty_sidebar_selection [OF h1 h2 h3 h4] obtain pg where
    pg: "app ?df ?w = Inr pg" "shown_lighting pg = []" by blast
  have "shown_lighting (projr (app ?df ?w)) = []"
    using pg by simp
  moreover have "\<not> isl (app ?df ?w)"
    using pg by simp
  moreover have "length (shown_top (projr (app ?df ?w))) = 1
      \<and> shown_warnings (projr (app ?df ?w)) = [''Please select at least one area for comparison.'']"
    by (simp add: app_eval)
  moreover have "selectbox_value (map Area (projr (top_entities ?df 10))) (Some ''Aley'')"
    using h3 by simp
  ultimately show ?thesis using h1 by simp
qed

end
